theory Spec2Isabelle
  imports Complex_Main
begin

section \<open>Errors\<close>

text \<open>
  Every exception is a value. The lexer and the classifier raise
  \<open>InvalidFythonSyntaxException\<close>, the class \<open>fython_parser\<close> defines: a
  \<open>SyntaxError\<close> here, tagged by the raise site. The evaluator raises Python's own
  \<open>RuntimeError\<close> for an invalid right operand: \<open>RuntimeError InvalidProgramNode\<close>.
  Every other raise statement names a class that is bound nowhere: \<open>RuntimeException\<close>
  in \<open>fython_runner\<close> (the module defines \<open>FythonRuntimeError\<close> and does not use it)
  and \<open>InvalidSyntaxException\<close> in \<open>fython_parser\<close>. Evaluating such a name raises
  \<open>NameError\<close>, before the message is built, and so does the call of
  \<open>_parse_program\<close>, a function that no module defines. The remaining constructors
  are the exceptions Python raises for operations the code performs unguarded (list
  indexing, \<open>pop\<close>, arithmetic, \<open>in\<close>, attribute access).

  \<open>ExpectedOpenParen\<close>, \<open>UnterminatedQuote\<close> and \<open>StackImbalance\<close> are the names
  the specification gives to three failures; no raise statement of the source produces
  them.
\<close>

datatype syntax_error =
    IllegalCharacter char
  | UnrecognizedSymbol string
  | ExpectedOpenParen
  | UnterminatedQuote

datatype runtime_error =
    InvalidProgramNode
  | StackImbalance nat

datatype error =
    SyntaxError syntax_error
  | RuntimeError runtime_error
  | NameError
  | IndexError
  | TypeError
  | ValueError
  | AttributeError
  | ZeroDivisionError

section \<open>Characters and strings\<close>

text \<open>
  A script is a \<open>string\<close>: a list of characters with code points 0 to 255. The
  predicates below are Python's \<open>str.isalpha\<close>, \<open>str.isdigit\<close> and
  \<open>str.isalnum\<close> on one character of that range.
\<close>

definition isalpha :: "char \<Rightarrow> bool" where
  "isalpha c = (let n = (of_char c :: nat) in
     (65 \<le> n \<and> n \<le> 90) \<or> (97 \<le> n \<and> n \<le> 122) \<or> n = 170 \<or> n = 181 \<or> n = 186 \<or>
     (192 \<le> n \<and> n \<le> 214) \<or> (216 \<le> n \<and> n \<le> 246) \<or> (248 \<le> n \<and> n \<le> 255))"

definition isdigit :: "char \<Rightarrow> bool" where
  "isdigit c = (let n = (of_char c :: nat) in
     (48 \<le> n \<and> n \<le> 57) \<or> n = 178 \<or> n = 179 \<or> n = 185)"

definition isalnum_char :: "char \<Rightarrow> bool" where
  "isalnum_char c = (let n = (of_char c :: nat) in
     isalpha c \<or> isdigit c \<or> (188 \<le> n \<and> n \<le> 190))"

text \<open>\<open>s.isalnum()\<close>: every character is alphanumeric and there is at least one.\<close>

definition isalnum :: "string \<Rightarrow> bool" where
  "isalnum s = (s \<noteq> [] \<and> list_all isalnum_char s)"

text \<open>\<open>s.split(sep)\<close> for a one-character separator: never the empty list.\<close>

fun split :: "char \<Rightarrow> string \<Rightarrow> string list" where
  "split sep [] = [[]]"
| "split sep (c # cs) =
     (if c = sep then [] # split sep cs
      else (c # hd (split sep cs)) # tl (split sep cs))"

text \<open>\<open>sub in s\<close> on two strings: \<open>sub\<close> occurs in \<open>s\<close> as a contiguous run.\<close>

fun startswith :: "string \<Rightarrow> string \<Rightarrow> bool" where
  "startswith s [] = True"
| "startswith [] (p # ps) = False"
| "startswith (c # cs) (p # ps) = (c = p \<and> startswith cs ps)"

fun str_contains :: "string \<Rightarrow> string \<Rightarrow> bool" where
  "str_contains [] sub = (sub = [])"
| "str_contains (c # cs) sub = (startswith (c # cs) sub \<or> str_contains cs sub)"

section \<open>The lexer: \<open>decompose_script\<close>\<close>

definition WORD_CHAR :: string where "WORD_CHAR = ''_''"
definition MATH_KW :: string where "MATH_KW = ''+-*/=''"
definition QUOTE :: string where "QUOTE = [CHR 0x22, CHR 0x27]"
definition PUNCTUATION :: string where
  "PUNCTUATION = ''(),:[].}{'' @ [CHR 0x22, CHR 0x27] @ ''#''"
definition WHITE_SPACE :: string where "WHITE_SPACE = [CHR 0x09, CHR 0x20]"
definition LINE_BREAK :: string where "LINE_BREAK = [CHR 0x0A]"
definition VAR_KW :: "string list" where
  "VAR_KW = [''def'', ''if'', ''else'', ''elif'', ''and'', ''or'', ''not'', ''in'', ''for'']"

text \<open>
  The inner loop of the whitespace branch: while the next character of the script equals
  \<open>char\<close>, step to it and append it to the buffer. It returns the index of the last
  character consumed and the buffer.
\<close>

function ws_run :: "string \<Rightarrow> nat \<Rightarrow> char \<Rightarrow> string \<Rightarrow> nat \<times> string" where
  "ws_run script char_idx char word_buffer =
     (if char_idx + 1 < length script \<and> script ! (char_idx + 1) = char
      then ws_run script (char_idx + 1) char (word_buffer @ [script ! (char_idx + 1)])
      else (char_idx, word_buffer))"
  by pat_completeness auto
termination
  by (relation "measure (\<lambda>(script, char_idx, char, word_buffer). length script - char_idx)") auto

declare ws_run.simps [simp del]

lemma ws_run_idx_ge: "char_idx \<le> fst (ws_run script char_idx char word_buffer)"
proof (induction script char_idx char word_buffer rule: ws_run.induct)
  case (1 script char_idx char word_buffer)
  show ?case
  proof (cases "char_idx + 1 < length script \<and> script ! (char_idx + 1) = char")
    case True
    then have "ws_run script char_idx char word_buffer =
        ws_run script (char_idx + 1) char (word_buffer @ [script ! (char_idx + 1)])"
      by (subst ws_run.simps) simp
    moreover have "char_idx + 1 \<le>
        fst (ws_run script (char_idx + 1) char (word_buffer @ [script ! (char_idx + 1)]))"
      using 1 True by blast
    ultimately show ?thesis by simp
  next
    case False
    then have "ws_run script char_idx char word_buffer = (char_idx, word_buffer)"
      by (subst ws_run.simps) auto
    then show ?thesis by simp
  qed
qed

text \<open>
  The main loop, on the loop state \<open>(char_idx, word_list, word_buffer)\<close>. The whitespace
  branch appends the run to \<open>word_list\<close> and leaves it in \<open>word_buffer\<close>, as the
  source does: the buffer is reassigned to \<open>[char]\<close>, grown by the inner loop, joined
  into the list, and not emptied afterwards.
\<close>

function decompose_loop ::
  "string \<Rightarrow> nat \<Rightarrow> string list \<Rightarrow> string \<Rightarrow> error + string list \<times> string" where
  "decompose_loop script char_idx word_list word_buffer =
     (if char_idx < length script then
        (let char = script ! char_idx in
         if isalpha char \<or> isdigit char \<or> char \<in> set WORD_CHAR then
           decompose_loop script (char_idx + 1) word_list (word_buffer @ [char])
         else if char \<in> set MATH_KW \<or> char \<in> set PUNCTUATION \<or> char \<in> set LINE_BREAK then
           (if length word_buffer > 0
            then decompose_loop script (char_idx + 1) ((word_list @ [word_buffer]) @ [[char]]) []
            else decompose_loop script (char_idx + 1) (word_list @ [[char]]) word_buffer)
         else if char \<in> set WHITE_SPACE then
           (let word_list1 = (if length word_buffer > 0 then word_list @ [word_buffer]
                              else word_list);
                run = ws_run script char_idx char [char]
            in decompose_loop script (fst run + 1) (word_list1 @ [snd run]) (snd run))
         else Inl (SyntaxError (IllegalCharacter char)))
      else Inr (word_list, word_buffer))"
  by pat_completeness auto
termination
proof (relation "measure (\<lambda>(script, char_idx, word_list, word_buffer). length script - char_idx)")
  show "wf (measure (\<lambda>(script, char_idx, word_list, word_buffer). length script - char_idx))"
    by simp
next
  fix script :: string and char_idx :: nat and word_list :: "string list"
    and word_buffer :: string and x xa xb
  assume "char_idx < length script" and "xb = ws_run script char_idx x [x]"
  then show "((script, fst xb + 1, xa @ [snd xb], snd xb), script, char_idx, word_list, word_buffer)
      \<in> measure (\<lambda>(script, char_idx, word_list, word_buffer). length script - char_idx)"
    using ws_run_idx_ge [of char_idx script x "[x]"] by simp
qed auto

declare decompose_loop.simps [simp del]

text \<open>After the loop, a non-empty buffer is appended as the last word.\<close>

definition decompose_script :: "string \<Rightarrow> error + string list" where
  "decompose_script script =
     (case decompose_loop script 0 [] [] of
        Inl e \<Rightarrow> Inl e
      | Inr (word_list, word_buffer) \<Rightarrow>
          Inr (if length word_buffer > 0 then word_list @ [word_buffer] else word_list))"

section \<open>Values, the object store and instruction nodes\<close>

text \<open>
  A value of the evaluator is a float (\<open>Num\<close>, a real number here: rounding,
  infinities and NaN are not modelled), a string, Python's \<open>None\<close>, or a reference to a dictionary object. The
  dictionaries live in a store, a map from addresses to their items; the context passed as
  \<open>global_var\<close> is one of them, and a nested mapping is an item whose value is a
  reference. Every function of the evaluator takes the store and returns it, so that a write
  to the context would show in the result.
\<close>

datatype val = Num real | Str string | NoneV | DictRef nat

type_synonym store = "nat \<Rightarrow> (string \<times> val) list"

text \<open>
  An instruction node is the dictionary \<open>_parse_node\<close> builds: its \<open>type\<close> is
  \<open>var\<close>, \<open>arithmatic\<close>, \<open>func\<close> (with its \<open>args\<close>, a list of programs) or
  \<open>punc\<close>.
\<close>

datatype node = Var val | Arith string | Func string "node list list" | Punc string

section \<open>The evaluator\<close>

subsection \<open>Python's operators on values\<close>

fun py_add :: "val \<Rightarrow> val \<Rightarrow> error + val" where
  "py_add (Num a) (Num b) = Inr (Num (a + b))"
| "py_add (Str a) (Str b) = Inr (Str (a @ b))"
| "py_add _ _ = Inl TypeError"

fun py_sub :: "val \<Rightarrow> val \<Rightarrow> error + val" where
  "py_sub (Num a) (Num b) = Inr (Num (a - b))"
| "py_sub _ _ = Inl TypeError"

fun py_truediv :: "val \<Rightarrow> val \<Rightarrow> error + val" where
  "py_truediv (Num a) (Num b) = (if b = 0 then Inl ZeroDivisionError else Inr (Num (a / b)))"
| "py_truediv _ _ = Inl TypeError"

fun py_mul :: "val \<Rightarrow> val \<Rightarrow> error + val" where
  "py_mul (Num a) (Num b) = Inr (Num (a * b))"
| "py_mul _ _ = Inl TypeError"

text \<open>Strings are ordered by code point, a proper prefix before its extensions.\<close>

fun str_lt :: "string \<Rightarrow> string \<Rightarrow> bool" where
  "str_lt [] [] = False"
| "str_lt [] (y # ys) = True"
| "str_lt (x # xs) [] = False"
| "str_lt (x # xs) (y # ys) =
     (if x = y then str_lt xs ys else (of_char x :: nat) < of_char y)"

fun py_lt :: "val \<Rightarrow> val \<Rightarrow> error + bool" where
  "py_lt (Num a) (Num b) = Inr (a < b)"
| "py_lt (Str a) (Str b) = Inr (str_lt a b)"
| "py_lt _ _ = Inl TypeError"

text \<open>
  \<open>min(args)\<close> and \<open>max(args)\<close> on a list: \<open>ValueError\<close> on the empty list;
  otherwise the first item is the candidate and each later item replaces it when it compares
  smaller (for \<open>max\<close>: greater), a comparison of unordered values raising \<open>TypeError\<close>.
\<close>

fun min_loop :: "val \<Rightarrow> val list \<Rightarrow> error + val" where
  "min_loop cur [] = Inr cur"
| "min_loop cur (x # xs) =
     (case py_lt x cur of Inl e \<Rightarrow> Inl e | Inr b \<Rightarrow> min_loop (if b then x else cur) xs)"

fun max_loop :: "val \<Rightarrow> val list \<Rightarrow> error + val" where
  "max_loop cur [] = Inr cur"
| "max_loop cur (x # xs) =
     (case py_lt cur x of Inl e \<Rightarrow> Inl e | Inr b \<Rightarrow> max_loop (if b then x else cur) xs)"

fun py_min :: "val list \<Rightarrow> error + val" where
  "py_min [] = Inl ValueError"
| "py_min (x # xs) = min_loop x xs"

fun py_max :: "val list \<Rightarrow> error + val" where
  "py_max [] = Inl ValueError"
| "py_max (x # xs) = max_loop x xs"

subsection \<open>\<open>_run_func\<close>\<close>

text \<open>
  The loop of \<open>lookup\<close> over the path segments, on the loop state \<open>lookup_step\<close>.
  \<open>path not in lookup_step\<close> is key membership on a dictionary, the substring test on a
  string, and a \<open>TypeError\<close> on a float or \<open>None\<close>; \<open>lookup_step[path]\<close> is the
  item of a dictionary and a \<open>TypeError\<close> on a string. In \<open>_run_func\<close> the two
  statements \<open>raise RuntimeException(...)\<close> (more than one argument of \<open>lookup\<close>,
  unknown function) raise \<open>NameError\<close>.
\<close>

fun lookup_loop :: "string list \<Rightarrow> val \<Rightarrow> store \<Rightarrow> (error + val) \<times> store" where
  "lookup_loop [] lookup_step \<sigma> = (Inr lookup_step, \<sigma>)"
| "lookup_loop (path # rest) (DictRef a) \<sigma> =
     (case map_of (\<sigma> a) path of
        None \<Rightarrow> (Inr NoneV, \<sigma>)
      | Some v \<Rightarrow> lookup_loop rest v \<sigma>)"
| "lookup_loop (path # rest) (Str s) \<sigma> =
     (if \<not> str_contains s path then (Inr NoneV, \<sigma>) else (Inl TypeError, \<sigma>))"
| "lookup_loop (path # rest) (Num x) \<sigma> = (Inl TypeError, \<sigma>)"
| "lookup_loop (path # rest) NoneV \<sigma> = (Inl TypeError, \<sigma>)"

definition run_func :: "string \<Rightarrow> val list \<Rightarrow> val \<Rightarrow> store \<Rightarrow> (error + val) \<times> store" where
  "run_func func_name args global_var \<sigma> =
     (if func_name = ''min'' then (py_min args, \<sigma>)
      else if func_name = ''max'' then (py_max args, \<sigma>)
      else if func_name = ''lookup'' then
        (if length args > 1 then (Inl NameError, \<sigma>)
         else (case args of
            [] \<Rightarrow> (Inl IndexError, \<sigma>)
          | Str s # _ \<Rightarrow> lookup_loop (split (CHR ''.'') s) global_var \<sigma>
          | _ # _ \<Rightarrow> (Inl AttributeError, \<sigma>)))
      else (Inl NameError, \<sigma>))"

subsection \<open>\<open>_evaluate_program\<close>\<close>

definition apply_arith :: "string \<Rightarrow> val \<Rightarrow> val \<Rightarrow> error + val" where
  "apply_arith opr var1 var2 =
     (if opr = ''+'' then py_add var1 var2
      else if opr = ''-'' then py_sub var1 var2
      else if opr = ''/'' then py_truediv var1 var2
      else if opr = ''*'' then py_mul var1 var2
      else Inl NameError)"

text \<open>
  \<open>eval_loop rest exec_stack global_var\<close> is the while loop at the state where
  \<open>rest\<close> is \<open>prog[prog_idx:]\<close>; it returns the stack the loop ends with.
  \<open>eval_args\<close> is the list comprehension over \<open>instr["args"]\<close>. Both recursive calls of
  the source, for a function node as right operand and for an argument, leave
  \<open>global_var\<close> at its default \<open>None\<close>. The stack grows at its end, and
  \<open>pop(-1)\<close> takes the last value. The three statements \<open>raise RuntimeException(...)\<close>
  (unknown operator, unknown instruction type, final stack check) raise \<open>NameError\<close>.
\<close>

fun eval_loop :: "node list \<Rightarrow> val list \<Rightarrow> val \<Rightarrow> store \<Rightarrow> (error + val list) \<times> store"
  and eval_args :: "node list list \<Rightarrow> store \<Rightarrow> (error + val list) \<times> store"
  and evaluate_program :: "node list \<Rightarrow> val \<Rightarrow> store \<Rightarrow> (error + val) \<times> store"
where
  "eval_loop [] exec_stack global_var \<sigma> = (Inr exec_stack, \<sigma>)"
| "eval_loop (Var v # rest) exec_stack global_var \<sigma> =
     eval_loop rest (exec_stack @ [v]) global_var \<sigma>"
| "eval_loop (Arith opr # rest) exec_stack global_var \<sigma> =
     (case rest of
        [] \<Rightarrow> (Inl IndexError, \<sigma>)
      | next_node # rest' \<Rightarrow>
          (case (case next_node of
                   Var v \<Rightarrow> (Inr v, \<sigma>)
                 | Func f as \<Rightarrow> evaluate_program [next_node] NoneV \<sigma>
                 | _ \<Rightarrow> (Inl (RuntimeError InvalidProgramNode), \<sigma>)) of
             (Inl e, \<sigma>') \<Rightarrow> (Inl e, \<sigma>')
           | (Inr var2, \<sigma>') \<Rightarrow>
               (if exec_stack = [] then (Inl IndexError, \<sigma>')
                else (case apply_arith opr (last exec_stack) var2 of
                        Inl e \<Rightarrow> (Inl e, \<sigma>')
                      | Inr r \<Rightarrow> eval_loop rest' (butlast exec_stack @ [r]) global_var \<sigma>'))))"
| "eval_loop (Func func as # rest) exec_stack global_var \<sigma> =
     (case eval_args as \<sigma> of
        (Inl e, \<sigma>') \<Rightarrow> (Inl e, \<sigma>')
      | (Inr args, \<sigma>') \<Rightarrow>
          (case run_func func args global_var \<sigma>' of
             (Inl e, \<sigma>'') \<Rightarrow> (Inl e, \<sigma>'')
           | (Inr r, \<sigma>'') \<Rightarrow> eval_loop rest (exec_stack @ [r]) global_var \<sigma>''))"
| "eval_loop (Punc p # rest) exec_stack global_var \<sigma> =
     (Inl NameError, \<sigma>)"
| "eval_args [] \<sigma> = (Inr [], \<sigma>)"
| "eval_args (arg # as) \<sigma> =
     (case evaluate_program arg NoneV \<sigma> of
        (Inl e, \<sigma>') \<Rightarrow> (Inl e, \<sigma>')
      | (Inr v, \<sigma>') \<Rightarrow>
          (case eval_args as \<sigma>' of
             (Inl e, \<sigma>'') \<Rightarrow> (Inl e, \<sigma>'')
           | (Inr vs, \<sigma>'') \<Rightarrow> (Inr (v # vs), \<sigma>'')))"
| "evaluate_program prog global_var \<sigma> =
     (case eval_loop prog [] global_var \<sigma> of
        (Inl e, \<sigma>') \<Rightarrow> (Inl e, \<sigma>')
      | (Inr exec_stack, \<sigma>') \<Rightarrow>
          (if length exec_stack \<noteq> 1
           then (Inl NameError, \<sigma>')
           else (Inr (last exec_stack), \<sigma>')))"

subsection \<open>\<open>evaluate_script\<close>\<close>

text \<open>
  \<open>evaluate_script\<close> lexes the script and then calls \<open>_parse_program\<close>.
  \<open>fython_runner\<close> imports \<open>decompose_script\<close> alone and defines no
  \<open>_parse_program\<close>, and \<open>fython_parser\<close> has no function of that name either: when the
  lexer has returned its words, the call raises \<open>NameError\<close>, and
  \<open>_evaluate_program\<close> is not reached.
\<close>

definition evaluate_script :: "string \<Rightarrow> val \<Rightarrow> store \<Rightarrow> (error + val) \<times> store" where
  "evaluate_script script global_var \<sigma> =
     (case decompose_script script of
        Inl e \<Rightarrow> (Inl e, \<sigma>)
      | Inr word_list \<Rightarrow> (Inl NameError, \<sigma>))"

subsection \<open>The value at a path\<close>

text \<open>
  The value reached from \<open>v\<close> by following the segments through nested dictionaries:
  \<open>None\<close> when a dictionary on the way lacks its segment, or when a value that is not a
  dictionary is reached while segments remain. This is the specification's "value found at
  the final segment"; the code is \<open>lookup_loop\<close> above.
\<close>

fun descend :: "store \<Rightarrow> val \<Rightarrow> string list \<Rightarrow> val option" where
  "descend \<sigma> v [] = Some v"
| "descend \<sigma> (DictRef a) (s # ss) =
     (case map_of (\<sigma> a) s of None \<Rightarrow> None | Some v \<Rightarrow> descend \<sigma> v ss)"
| "descend \<sigma> _ (s # ss) = None"

section \<open>The classifier: \<open>classify_word\<close>\<close>

datatype SymbolType =
    Punctuation | Value | Name | Whitespace_spacing | Whitespace_separator
  | LineBreak | MathOperation | Keyword

text \<open>
  \<open>word in PUNCTUATION\<close> and \<open>word in MATH_KW\<close> are substring tests on strings,
  \<open>word in VAR_KW\<close> is membership in a list. The identifier branch evaluates
  \<open>word[0]\<close> only when every non-empty segment is alphanumeric, and then returns
  \<open>Symbol.Name\<close>: \<open>Symbol\<close> is the named tuple of the module, with the fields
  \<open>word\<close>, \<open>type\<close>, \<open>file_index\<close>, \<open>line_index\<close> and \<open>pos_index\<close>, so the
  attribute access raises \<open>AttributeError\<close>; so does \<open>Symbol.Value\<close> in the last
  branch. The other branches return members of \<open>SymbolType\<close>. Whether \<open>float(word)\<close>
  succeeds is the parameter \<open>float_ok\<close>.
\<close>

definition classify_word :: "(string \<Rightarrow> bool) \<Rightarrow> string \<Rightarrow> nat \<Rightarrow> error + SymbolType" where
  "classify_word float_ok word pos_index =
     (if length word = 1 \<and> str_contains PUNCTUATION word then Inr Punctuation
      else if length word = 1 \<and> str_contains MATH_KW word then Inr MathOperation
      else if length word = 1 \<and> word = [CHR 0x0A] then Inr LineBreak
      else if word \<in> set VAR_KW then Inr Keyword
      else if list_all isalnum (filter (\<lambda>w_idx. length w_idx > 0) (split (CHR ''_'') word))
              \<and> word = [] then Inl IndexError
      else if list_all isalnum (filter (\<lambda>w_idx. length w_idx > 0) (split (CHR ''_'') word))
              \<and> \<not> isdigit (hd word) then Inl AttributeError
      else if list_all (\<lambda>char. char \<in> set WHITE_SPACE) word then
        (if pos_index = 0 then Inr Whitespace_spacing else Inr Whitespace_separator)
      else if float_ok word then Inl AttributeError
      else Inl (SyntaxError (UnrecognizedSymbol word)))"

section \<open>The parser\<close>

subsection \<open>\<open>extract_quote\<close>\<close>








subsection \<open>\<open>_parse_node\<close> and \<open>_parse_args\<close>\<close>

text \<open>
  \<open>_parse_node\<close> uses constants and helpers that the repository does not define:
  \<open>FUNCTION_KW\<close>, the three regular expressions, \<open>_parse_24h_clock\<close>,
  \<open>_parse_duration\<close> and \<open>time.normalize_time\<close>. They are the fields of a
  \<open>lexicon\<close>, a parameter of the parser: \<open>in_FUNCTION_KW\<close> is the test
  \<open>word in FUNCTION_KW\<close>, \<open>search_X\<close> says whether \<open>re.search(X, word)\<close> finds a
  match, \<open>py_float\<close> is Python's \<open>float\<close> on a string, and each helper returns a value
  or raises.
\<close>

record lexicon =
  in_FUNCTION_KW :: "string \<Rightarrow> bool"
  search_CLOCK_REGEX :: "string \<Rightarrow> bool"
  search_FLOAT_REGEX :: "string \<Rightarrow> bool"
  search_DURATION_REGEX :: "string \<Rightarrow> bool"
  parse_24h_clock :: "string \<Rightarrow> error + val"
  py_float :: "string \<Rightarrow> error + val"
  parse_duration :: "string \<Rightarrow> error + val"
  normalize_time :: "string \<Rightarrow> error + val"

text \<open>A literal node from a helper's result, one word consumed.\<close>

definition var_node :: "error + val \<Rightarrow> nat \<Rightarrow> (error + node \<times> nat) option" where
  "var_node r word_index =
     (case r of Inl e \<Rightarrow> Some (Inl e) | Inr v \<Rightarrow> Some (Inr (Var v, word_index + 1)))"

text \<open>
  The two functions call each other, and the loop of \<open>_parse_args\<close> need not end: the
  last branch of \<open>_parse_node\<close> returns \<open>word_index\<close> as it received it. The first
  argument after the lexicon is fuel, one unit for each call and each round of the loop;
  \<open>None\<close> says that the fuel ran out. \<open>args_loop\<close> is the while loop of
  \<open>_parse_args\<close> on the state \<open>(word_index, args, prog)\<close>; the loop ends after the
  round that parses the node \<open>)\<close>. When the first node is not \<open>(\<close>, the
  statement \<open>raise InvalidSyntaxException(...)\<close> raises \<open>NameError\<close>.
\<close>

fun parse_node :: "lexicon \<Rightarrow> nat \<Rightarrow> string list \<Rightarrow> nat \<Rightarrow> (error + node \<times> nat) option"
  and parse_args ::
    "lexicon \<Rightarrow> nat \<Rightarrow> string list \<Rightarrow> nat \<Rightarrow> (error + node list list \<times> nat) option"
  and args_loop ::
    "lexicon \<Rightarrow> nat \<Rightarrow> string list \<Rightarrow> nat \<Rightarrow> node list list \<Rightarrow> node list
      \<Rightarrow> (error + node list list \<times> nat) option"
where
  "parse_node L 0 word_list word_index = None"
| "parse_node L (Suc n) word_list word_index =
     (if word_index \<ge> length word_list then Some (Inl IndexError)
      else (let word = word_list ! word_index in
        if in_FUNCTION_KW L word then
          (case parse_args L n word_list (word_index + 1) of
             None \<Rightarrow> None
           | Some (Inl e) \<Rightarrow> Some (Inl e)
           | Some (Inr (args, word_index')) \<Rightarrow> Some (Inr (Func word args, word_index')))
        else if str_contains PUNCTUATION word then Some (Inr (Punc word, word_index + 1))
        else if str_contains MATH_KW word then Some (Inr (Arith word, word_index + 1))
        else if search_CLOCK_REGEX L word then var_node (parse_24h_clock L word) word_index
        else if search_FLOAT_REGEX L word then
          var_node (py_float L (concat (split (CHR ''_'') word))) word_index
        else if search_DURATION_REGEX L word then var_node (parse_duration L word) word_index
        else if word \<in> set VAR_KW then var_node (normalize_time L word) word_index
        else Some (Inr (Var (Str word), word_index))))"
| "parse_args L 0 word_list word_index = None"
| "parse_args L (Suc n) word_list word_index =
     (case parse_node L n word_list word_index of
        None \<Rightarrow> None
      | Some (Inl e) \<Rightarrow> Some (Inl e)
      | Some (Inr (next_node, word_index')) \<Rightarrow>
          if next_node \<noteq> Punc ''('' then Some (Inl NameError)
          else args_loop L n word_list word_index' [] [])"
| "args_loop L 0 word_list word_index args prog = None"
| "args_loop L (Suc n) word_list word_index args prog =
     (case parse_node L n word_list word_index of
        None \<Rightarrow> None
      | Some (Inl e) \<Rightarrow> Some (Inl e)
      | Some (Inr (next_node, word_index')) \<Rightarrow>
          if next_node = Punc '','' then args_loop L n word_list word_index' (args @ [prog]) []
          else if next_node = Punc '')'' then Some (Inr (args @ [prog], word_index'))
          else args_loop L n word_list word_index' args (prog @ [next_node]))"

text \<open>
  The argument list as the specification words it, on the nodes parsed between the
  parentheses: a node other than the comma joins the current accumulator, a comma closes
  the accumulator and opens an empty one, and the end of the nodes (the closing
  parenthesis) closes the last accumulator.
\<close>

fun split_args :: "node list \<Rightarrow> node list \<Rightarrow> node list list" where
  "split_args prog [] = [prog]"
| "split_args prog (nd # nodes) =
     (if nd = Punc '','' then prog # split_args [] nodes
      else split_args (prog @ [nd]) nodes)"

text \<open>
  \<open>run_nodes L n word_list i nodes = Some j\<close>: calling \<open>_parse_node\<close> again and again
  from index \<open>i\<close> yields the nodes of the list, one after the other, and leaves the index
  at \<open>j\<close>.
\<close>

fun run_nodes :: "lexicon \<Rightarrow> nat \<Rightarrow> string list \<Rightarrow> nat \<Rightarrow> node list \<Rightarrow> nat option" where
  "run_nodes L n word_list i [] = Some i"
| "run_nodes L n word_list i (nd # nodes) =
     (case parse_node L n word_list i of
        Some (Inr (nd', k)) \<Rightarrow> if nd' = nd then run_nodes L n word_list k nodes else None
      | _ \<Rightarrow> None)"

text \<open>A decimal digit, and the number a word of decimal digits denotes.\<close>

definition isdecimal :: "char \<Rightarrow> bool" where
  "isdecimal c = (48 \<le> (of_char c :: nat) \<and> (of_char c :: nat) \<le> 57)"

definition digits_value :: "string \<Rightarrow> nat" where
  "digits_value s = foldl (\<lambda>acc c. 10 * acc + (of_char c - 48)) 0 s"

text \<open>
  Modelled from the spec: the constants \<open>FUNCTION_KW\<close> and \<open>FLOAT_REGEX\<close> and the
  literal helpers are not in the repository. The specification names the built-in
  functions \<open>min\<close>, \<open>max\<close> and \<open>lookup\<close> and a float pattern of digits with
  underscore separators; this lexicon recognises these, converts a word of decimal digits
  to its number, matches no clock time and no duration, and keeps a keyword as its own
  text. It is the instance at which the theorems on the parser are evaluated.
\<close>

definition digits_lexicon :: lexicon where
  "digits_lexicon = \<lparr>
     in_FUNCTION_KW = (\<lambda>word. word \<in> set [''min'', ''max'', ''lookup'']),
     search_CLOCK_REGEX = (\<lambda>word. False),
     search_FLOAT_REGEX = (\<lambda>word. word \<noteq> [] \<and> isdecimal (hd word)
        \<and> list_all (\<lambda>c. isdecimal c \<or> c = CHR ''_'') word),
     search_DURATION_REGEX = (\<lambda>word. False),
     parse_24h_clock = (\<lambda>word. Inl ValueError),
     py_float = (\<lambda>s. if s \<noteq> [] \<and> list_all isdecimal s then Inr (Num (real (digits_value s)))
                     else Inl ValueError),
     parse_duration = (\<lambda>word. Inl ValueError),
     normalize_time = (\<lambda>word. Inr (Str word)) \<rparr>"

section \<open>Example contexts\<close>

text \<open>
  The context of the specification's lookup scenarios,
  \<open>{"sensor": {"temp": 21.5}}\<close>: the outer dictionary at address 0, the inner one at
  address 1.
\<close>

definition sensor_store :: store where
  "sensor_store = (\<lambda>a. [])(0 := [(''sensor'', DictRef 1)], 1 := [(''temp'', Num 21.5)])"

text \<open>The context \<open>{"a": "xyz", "n": 1.0}\<close>, at address 0.\<close>

definition label_store :: store where
  "label_store = (\<lambda>a. [])(0 := [(''a'', Str ''xyz''), (''n'', Num 1)])"

section \<open>Lemmas on the evaluator\<close>

lemma eval_loop_literals:
  "eval_loop (map Var vs) exec_stack g \<sigma> = (Inr (exec_stack @ vs), \<sigma>)"
  by (induction vs arbitrary: exec_stack) simp_all

lemma lookup_loop_store: "snd (lookup_loop segs step \<sigma>) = \<sigma>"
  by (induction segs step \<sigma> rule: lookup_loop.induct) (simp_all split: option.splits)

lemma run_func_store: "snd (run_func f args g \<sigma>) = \<sigma>"
  by (simp add: run_func_def lookup_loop_store split: list.splits val.splits)

lemma evaluator_store:
  "snd (eval_loop prog st g \<sigma>) = \<sigma>"
  "snd (eval_args as \<sigma>) = \<sigma>"
  "snd (evaluate_program prog g \<sigma>) = \<sigma>"
proof (induction prog st g \<sigma> and as \<sigma> and prog g \<sigma> rule: eval_loop_eval_args_evaluate_program.induct)
  case (3 opr rest exec_stack global_var \<sigma>)
  show ?case
  proof (cases rest)
    case Nil
    then show ?thesis by simp
  next
    case (Cons next_node rest')
    obtain r2 \<sigma>2 where op2: "(case next_node of
                   Var v \<Rightarrow> (Inr v, \<sigma>)
                 | Func f as \<Rightarrow> evaluate_program [next_node] NoneV \<sigma>
                 | _ \<Rightarrow> (Inl (RuntimeError InvalidProgramNode), \<sigma>)) = (r2, \<sigma>2)"
      by (cases "(case next_node of
                   Var v \<Rightarrow> (Inr v, \<sigma>)
                 | Func f as \<Rightarrow> evaluate_program [next_node] NoneV \<sigma>
                 | _ \<Rightarrow> (Inl (RuntimeError InvalidProgramNode), \<sigma>))") auto
    have s2: "\<sigma>2 = \<sigma>"
      using op2 "3.IH"(1) [OF Cons] by (cases next_node) (auto simp del: evaluate_program.simps)
    show ?thesis
    proof (cases r2)
      case (Inl e)
      with Cons op2 s2 show ?thesis by (simp del: evaluate_program.simps)
    next
      case (Inr var2)
      show ?thesis
      proof (cases "exec_stack = []")
        case True
        with Cons op2 s2 Inr show ?thesis by (simp del: evaluate_program.simps)
      next
        case False
        show ?thesis
        proof (cases "apply_arith opr (last exec_stack) var2")
          case (Inl e)
          with Cons op2 s2 Inr False show ?thesis by (simp del: evaluate_program.simps)
        next
          case r: (Inr r)
          have "snd (eval_loop rest' (butlast exec_stack @ [r]) global_var \<sigma>2) = \<sigma>2"
            using "3.IH"(2) [OF Cons op2 [symmetric] Inr False r] .
          with Cons op2 s2 Inr False r show ?thesis by (simp del: evaluate_program.simps)
        qed
      qed
    qed
  qed
next
  case (4 func as rest exec_stack global_var \<sigma>)
  obtain ra \<sigma>1 where a: "eval_args as \<sigma> = (ra, \<sigma>1)" by (cases "eval_args as \<sigma>") auto
  have s1: "\<sigma>1 = \<sigma>" using a "4.IH"(1) by simp
  show ?case
  proof (cases ra)
    case (Inl e)
    with a s1 show ?thesis by simp
  next
    case (Inr args)
    obtain rf \<sigma>2 where f: "run_func func args global_var \<sigma>1 = (rf, \<sigma>2)"
      by (cases "run_func func args global_var \<sigma>1") auto
    have s2: "\<sigma>2 = \<sigma>1" using f run_func_store [of func args global_var \<sigma>1] by simp
    show ?thesis
    proof (cases rf)
      case (Inl e)
      with a s1 Inr f s2 show ?thesis by simp
    next
      case r: (Inr r)
      have "snd (eval_loop rest (exec_stack @ [r]) global_var \<sigma>2) = \<sigma>2"
        using "4.IH"(2) [OF a [symmetric] Inr f [symmetric] r] .
      with a s1 Inr f s2 r show ?thesis by simp
    qed
  qed
next
  case (7 arg as \<sigma>)
  obtain r1 \<sigma>1 where a: "evaluate_program arg NoneV \<sigma> = (r1, \<sigma>1)"
    by (cases "evaluate_program arg NoneV \<sigma>") auto
  have s1: "\<sigma>1 = \<sigma>" using a "7.IH"(1) by (simp del: evaluate_program.simps)
  show ?case
  proof (cases r1)
    case (Inl e)
    with a s1 show ?thesis by (simp del: evaluate_program.simps)
  next
    case (Inr v)
    obtain r2 \<sigma>2 where b: "eval_args as \<sigma>1 = (r2, \<sigma>2)" by (cases "eval_args as \<sigma>1") auto
    have "snd (eval_args as \<sigma>1) = \<sigma>1"
      using "7.IH"(2) [OF a [symmetric] Inr] .
    with a s1 Inr b show ?thesis by (cases r2) (simp_all del: evaluate_program.simps)
  qed
next
  case (8 prog global_var \<sigma>)
  obtain r \<sigma>1 where a: "eval_loop prog [] global_var \<sigma> = (r, \<sigma>1)"
    by (cases "eval_loop prog [] global_var \<sigma>") auto
  with 8 have "\<sigma>1 = \<sigma>" by simp
  with a show ?case by (cases r) simp_all
qed simp_all

lemma lookup_loop_descend:
  "descend \<sigma> g pre = Some t \<Longrightarrow> lookup_loop (pre @ rest) g \<sigma> = lookup_loop rest t \<sigma>"
proof (induction pre arbitrary: g)
  case Nil
  then show ?case by simp
next
  case (Cons s pre)
  then show ?case by (cases g) (auto split: option.splits)
qed

lemma lookup_loop_found:
  "descend \<sigma> g segs = Some v \<Longrightarrow> lookup_loop segs g \<sigma> = (Inr v, \<sigma>)"
  using lookup_loop_descend [of \<sigma> g segs v "[]"] by simp

lemma lookup_loop_none_only:
  "lookup_loop segs g \<sigma> = (Inr NoneV, \<sigma>') \<Longrightarrow>
   (\<exists>pre s post t. segs = pre @ s # post \<and> descend \<sigma> g pre = Some t \<and>
      ((\<exists>a. t = DictRef a \<and> map_of (\<sigma> a) s = None) \<or> (\<exists>u. t = Str u \<and> \<not> str_contains u s)))
   \<or> descend \<sigma> g segs = Some NoneV"
proof (induction segs arbitrary: g)
  case Nil
  then show ?case by simp
next
  case (Cons s segs)
  show ?case
  proof (cases g)
    case (DictRef a)
    show ?thesis
    proof (cases "map_of (\<sigma> a) s")
      case None
      have "s # segs = [] @ s # segs \<and> descend \<sigma> g [] = Some g" by simp
      with None DictRef show ?thesis by blast
    next
      case (Some v)
      with Cons.prems DictRef have "lookup_loop segs v \<sigma> = (Inr NoneV, \<sigma>')" by simp
      from Cons.IH [OF this] show ?thesis
      proof
        assume "\<exists>pre s' post t. segs = pre @ s' # post \<and> descend \<sigma> v pre = Some t \<and>
          ((\<exists>a. t = DictRef a \<and> map_of (\<sigma> a) s' = None) \<or> (\<exists>u. t = Str u \<and> \<not> str_contains u s'))"
        then obtain pre s' post t where h: "segs = pre @ s' # post" "descend \<sigma> v pre = Some t"
          "(\<exists>a. t = DictRef a \<and> map_of (\<sigma> a) s' = None) \<or> (\<exists>u. t = Str u \<and> \<not> str_contains u s')"
          by blast
        have "s # segs = (s # pre) @ s' # post" using h(1) by simp
        moreover have "descend \<sigma> g (s # pre) = Some t" using h(2) DictRef Some by simp
        ultimately show ?thesis using h(3) by blast
      next
        assume "descend \<sigma> v segs = Some NoneV"
        then show ?thesis using DictRef Some by simp
      qed
    qed
  next
    case (Str u)
    with Cons.prems have "\<not> str_contains u s" by (auto split: if_splits)
    moreover have "s # segs = [] @ s # segs \<and> descend \<sigma> g [] = Some g" by simp
    ultimately show ?thesis using Str by blast
  next
    case (Num x)
    with Cons.prems show ?thesis by simp
  next
    case NoneV
    with Cons.prems show ?thesis by simp
  qed
qed

lemma sensor_store_simps:
  "sensor_store 0 = [(''sensor'', DictRef 1)]" "sensor_store (Suc 0) = [(''temp'', Num 21.5)]"
  by (simp_all add: sensor_store_def)

lemma label_store_simps: "label_store 0 = [(''a'', Str ''xyz''), (''n'', Num 1)]"
  by (simp add: label_store_def)

section \<open>Lemmas on the parser\<close>

lemma fuel_step:
  "(\<forall>ws i r. parse_node L n ws i = Some r \<longrightarrow> parse_node L (Suc n) ws i = Some r) \<and>
   (\<forall>ws i r. parse_args L n ws i = Some r \<longrightarrow> parse_args L (Suc n) ws i = Some r) \<and>
   (\<forall>ws i a p r. args_loop L n ws i a p = Some r \<longrightarrow> args_loop L (Suc n) ws i a p = Some r)"
proof (induction n)
  case 0
  show ?case by simp
next
  case (Suc n)
  have node: "parse_node L (Suc (Suc n)) ws i = Some r" if h: "parse_node L (Suc n) ws i = Some r" for ws i r
  proof (cases "i < length ws \<and> in_FUNCTION_KW L (ws ! i)")
    case True
    with h obtain r' where r': "parse_args L n ws (i + 1) = Some r'"
      by (auto split: option.splits)
    then have "parse_args L (Suc n) ws (i + 1) = Some r'" using Suc by blast
    with h r' True show ?thesis by (simp del: parse_args.simps)
  next
    case False
    with h show ?thesis by (auto simp: Let_def simp del: parse_args.simps)
  qed
  have args: "parse_args L (Suc (Suc n)) ws i = Some r" if h: "parse_args L (Suc n) ws i = Some r" for ws i r
  proof -
    from h obtain r' where r': "parse_node L n ws i = Some r'" by (auto split: option.splits)
    then have r'': "parse_node L (Suc n) ws i = Some r'" using Suc by blast
    show ?thesis
    proof (cases r')
      case (Inl e)
      with h r' r'' show ?thesis by (simp del: parse_node.simps args_loop.simps)
    next
      case (Inr p)
      obtain nd j where p: "p = (nd, j)" by (cases p)
      show ?thesis
      proof (cases "nd \<noteq> Punc ''(''")
        case True
        with h r' r'' Inr p show ?thesis by (simp del: parse_node.simps args_loop.simps)
      next
        case False
        with h r' Inr p have "args_loop L n ws j [] [] = Some r" by (simp del: parse_node.simps args_loop.simps)
        then have "args_loop L (Suc n) ws j [] [] = Some r" using Suc by blast
        with False r'' Inr p show ?thesis by (simp del: parse_node.simps args_loop.simps)
      qed
    qed
  qed
  have loop: "args_loop L (Suc (Suc n)) ws i a p = Some r" if h: "args_loop L (Suc n) ws i a p = Some r" for ws i a p r
  proof -
    note u1 = args_loop.simps(2) [of L n ws i a p] and u2 = args_loop.simps(2) [of L "Suc n" ws i a p]
    from h obtain r' where r': "parse_node L n ws i = Some r'" by (auto split: option.splits)
    then have r'': "parse_node L (Suc n) ws i = Some r'" using Suc by blast
    show ?thesis
    proof (cases r')
      case (Inl e)
      with h r' r'' show ?thesis by (simp add: u1 u2 del: parse_node.simps args_loop.simps)
    next
      case (Inr q)
      obtain nd j where q: "q = (nd, j)" by (cases q)
      consider (comma) "nd = Punc '',''" | (close) "nd \<noteq> Punc '',''" "nd = Punc '')''"
        | (other) "nd \<noteq> Punc '',''" "nd \<noteq> Punc '')''" by blast
      then show ?thesis
      proof cases
        case comma
        with h r' Inr q have "args_loop L n ws j (a @ [p]) [] = Some r" by (simp add: u1 u2 del: parse_node.simps args_loop.simps)
        then have "args_loop L (Suc n) ws j (a @ [p]) [] = Some r" using Suc by blast
        with comma r'' Inr q show ?thesis by (simp add: u1 u2 del: parse_node.simps args_loop.simps)
      next
        case close
        with h r' r'' Inr q show ?thesis by (simp add: u1 u2 del: parse_node.simps args_loop.simps)
      next
        case other
        with h r' Inr q have "args_loop L n ws j a (p @ [nd]) = Some r" by (simp add: u1 u2 del: parse_node.simps args_loop.simps)
        then have "args_loop L (Suc n) ws j a (p @ [nd]) = Some r" using Suc by blast
        with other r'' Inr q show ?thesis by (simp add: u1 u2 del: parse_node.simps args_loop.simps)
      qed
    qed
  qed
  from node args loop show ?case by blast
qed

lemma parse_node_fuel: "parse_node L n ws i = Some r \<Longrightarrow> parse_node L (n + k) ws i = Some r"
proof (induction k)
  case 0 then show ?case by simp
next
  case (Suc k)
  then have "parse_node L (n + k) ws i = Some r" by simp
  then have "parse_node L (Suc (n + k)) ws i = Some r" using fuel_step [of L "n + k"] by blast
  then show ?case by simp
qed

lemma args_loop_fuel: "args_loop L n ws i a p = Some r \<Longrightarrow> args_loop L (n + k) ws i a p = Some r"
proof (induction k)
  case 0 then show ?case by simp
next
  case (Suc k)
  then have "args_loop L (n + k) ws i a p = Some r" by simp
  then have "args_loop L (Suc (n + k)) ws i a p = Some r" using fuel_step [of L "n + k"] by blast
  then show ?case by simp
qed

lemma parse_args_fuel: "parse_args L n ws i = Some r \<Longrightarrow> parse_args L (n + k) ws i = Some r"
proof (induction k)
  case 0 then show ?case by simp
next
  case (Suc k)
  then have "parse_args L (n + k) ws i = Some r" by simp
  then have "parse_args L (Suc (n + k)) ws i = Some r" using fuel_step [of L "n + k"] by blast
  then show ?case by simp
qed

lemma args_loop_nodes:
  "run_nodes L n ws i nodes = Some j \<Longrightarrow> Punc '')'' \<notin> set nodes \<Longrightarrow>
   parse_node L n ws j = Some (Inr (Punc '')'', k)) \<Longrightarrow>
   args_loop L (Suc (n + length nodes)) ws i args prog = Some (Inr (args @ split_args prog nodes, k))"
proof (induction nodes arbitrary: i args prog)
  case Nil
  then have "parse_node L n ws i = Some (Inr (Punc '')'', k))" by simp
  then show ?case by (simp del: parse_node.simps)
next
  case (Cons nd nodes)
  from Cons.prems(1) obtain i' where nd: "parse_node L n ws i = Some (Inr (nd, i'))"
    and rest: "run_nodes L n ws i' nodes = Some j"
    by (auto split: option.splits sum.splits if_splits simp del: parse_node.simps)
  have nd': "parse_node L (Suc (n + length nodes)) ws i = Some (Inr (nd, i'))"
    using parse_node_fuel [OF nd, of "Suc (length nodes)"] by simp
  have close: "nd \<noteq> Punc '')''" and rest_close: "Punc '')'' \<notin> set nodes"
    using Cons.prems(2) by auto
  have IH: "args_loop L (Suc (n + length nodes)) ws i' a p = Some (Inr (a @ split_args p nodes, k))" for a p
    using Cons.IH [OF rest rest_close Cons.prems(3)] .
  show ?case
  proof (cases "nd = Punc '',''")
    case True
    have "args_loop L (Suc (n + length (nd # nodes))) ws i args prog =
        args_loop L (Suc (n + length nodes)) ws i' (args @ [prog]) []"
      using nd' True by (simp del: parse_node.simps)
    then show ?thesis using IH True by simp
  next
    case False
    have "args_loop L (Suc (n + length (nd # nodes))) ws i args prog =
        args_loop L (Suc (n + length nodes)) ws i' args (prog @ [nd])"
      using nd' False close by (simp del: parse_node.simps)
    then show ?thesis using IH False by simp
  qed
qed


lemmas lexicon_simps = digits_lexicon_def isdecimal_def digits_value_def PUNCTUATION_def
  MATH_KW_def VAR_KW_def var_node_def Let_def

lemma digits_nodes:
  "parse_node digits_lexicon (Suc 0) [''('', ''1'', '','', ''2'', '')''] 0 = Some (Inr (Punc ''('', 1))"
  "parse_node digits_lexicon (Suc 0) [''('', ''1'', '','', ''2'', '')''] 1 = Some (Inr (Var (Num 1), 2))"
  "parse_node digits_lexicon (Suc 0) [''('', ''1'', '','', ''2'', '')''] 2 = Some (Inr (Punc '','', 3))"
  "parse_node digits_lexicon (Suc 0) [''('', ''1'', '','', ''2'', '')''] 3 = Some (Inr (Var (Num 2), 4))"
  "parse_node digits_lexicon (Suc 0) [''('', ''1'', '','', ''2'', '')''] 4 = Some (Inr (Punc '')'', 5))"
  "parse_node digits_lexicon (Suc 0) [''1'', '')''] 0 = Some (Inr (Var (Num 1), 1))"
  "parse_node digits_lexicon (Suc 0) [''('', '')''] 0 = Some (Inr (Punc ''('', 1))"
  "parse_node digits_lexicon (Suc 0) [''('', '')''] 1 = Some (Inr (Punc '')'', 2))"
  by (simp_all add: lexicon_simps)

text \<open>
  On word lists without whitespace words, \<open>2 - 1 - 1\<close> and \<open>min ( 1 , 2 ) + 3\<close>
  (which the lexer does not produce from the scripts), \<open>_parse_node\<close> yields, node by
  node, the instruction sequences evaluated below.
\<close>

lemma parse_node_program_examples:
  "run_nodes digits_lexicon 1 [''2'', ''-'', ''1'', ''-'', ''1''] 0
     [Var (Num 2), Arith ''-'', Var (Num 1), Arith ''-'', Var (Num 1)] = Some 5"
  "run_nodes digits_lexicon 7 [''min'', ''('', ''1'', '','', ''2'', '')'', ''+'', ''3''] 0
     [Func ''min'' [[Var (Num 1)], [Var (Num 2)]], Arith ''+'', Var (Num 3)] = Some 8"
  by (simp_all add: lexicon_simps eval_nat_numeral)

text \<open>
  The last branch of \<open>_parse_node\<close>, for a word that nothing recognises, returns the
  index it was given.
\<close>

lemma parse_node_fallback_keeps_index:
  "\<not> in_FUNCTION_KW L ''sensor'' \<Longrightarrow> \<not> search_CLOCK_REGEX L ''sensor'' \<Longrightarrow>
   \<not> search_FLOAT_REGEX L ''sensor'' \<Longrightarrow> \<not> search_DURATION_REGEX L ''sensor'' \<Longrightarrow>
   parse_node L (Suc n) [''sensor''] 0 = Some (Inr (Var (Str ''sensor''), 0))"
  by (simp add: PUNCTUATION_def MATH_KW_def VAR_KW_def)


text \<open>
  The lexer's words for the script \<open>2 - 1 - 1\<close>, and what \<open>_parse_node\<close> does at a
  word of one space that the lexicon does not recognise: it returns a string literal and
  the index it was given.
\<close>

lemma decompose_script_arithmetic_words:
  "decompose_script ''2 - 1 - 1''
     = Inr [''2'', '' '', '' '', ''-'', '' '', '' 1'', '' '', '' '', ''-'', '' '', '' 1'']"
  by (simp add: decompose_script_def decompose_loop.simps ws_run.simps isalpha_def isdigit_def
      WORD_CHAR_def MATH_KW_def PUNCTUATION_def WHITE_SPACE_def LINE_BREAK_def Let_def)

lemma parse_node_whitespace_keeps_index:
  "word_index < length word_list \<Longrightarrow> word_list ! word_index = '' '' \<Longrightarrow>
   \<not> in_FUNCTION_KW L '' '' \<Longrightarrow> \<not> search_CLOCK_REGEX L '' '' \<Longrightarrow>
   \<not> search_FLOAT_REGEX L '' '' \<Longrightarrow> \<not> search_DURATION_REGEX L '' '' \<Longrightarrow>
   parse_node L (Suc n) word_list word_index = Some (Inr (Var (Str '' ''), word_index))"
  by (simp add: PUNCTUATION_def MATH_KW_def VAR_KW_def)

text \<open>
  The evaluator on the instruction sequences of the two scripts of C1: \<open>(2 - 1) - 1\<close>
  and \<open>min(1, 2) + 3\<close>.
\<close>

lemma evaluate_program_arithmetic_examples:
  "evaluate_program [Var (Num 2), Arith ''-'', Var (Num 1), Arith ''-'', Var (Num 1)] g \<sigma>
     = (Inr (Num 0), \<sigma>)"
  "evaluate_program [Func ''min'' [[Var (Num 1)], [Var (Num 2)]], Arith ''+'', Var (Num 3)] g \<sigma>
     = (Inr (Num 4), \<sigma>)"
  by (simp_all add: apply_arith_def run_func_def)

section \<open>The claims\<close>

subsection \<open>The lexer\<close>

text \<open>
  C2 (round trip of the lexer). The claim: for every accepted script, the concatenation of
  the words of \<open>decompose_script\<close> is the script. The code does not do this: the
  whitespace branch appends the run of whitespace to the word list and leaves it in the
  word buffer, so the run comes a second time, in front of the next word or as a word of
  its own. On the script \<open>a b\<close> the words are \<open>a\<close>, one space, and \<open>b\<close> with a
  space before it; their concatenation has two spaces.
\<close>

theorem decompose_script_repeats_whitespace:
  "decompose_script ''a b'' = Inr [''a'', '' '', '' b'']
   \<and> concat [''a'', '' '', '' b''] \<noteq> ''a b''"
  by (simp add: decompose_script_def decompose_loop.simps ws_run.simps isalpha_def isdigit_def
      WORD_CHAR_def MATH_KW_def PUNCTUATION_def WHITE_SPACE_def LINE_BREAK_def Let_def)

text \<open>
  C3 (whitespace grouping). The claim: the script of two spaces and one tab lexes to two
  words, the two spaces and the tab. The code returns four words: the run of spaces is
  still in the buffer when the tab is read and is flushed again, and the tab is still in
  the buffer at the end of the script and is flushed again.
\<close>

theorem decompose_script_two_spaces_tab:
  "decompose_script [CHR 0x20, CHR 0x20, CHR 0x09]
     = Inr [[CHR 0x20, CHR 0x20], [CHR 0x20, CHR 0x20], [CHR 0x09], [CHR 0x09]]"
  by (simp add: decompose_script_def decompose_loop.simps ws_run.simps isalpha_def isdigit_def
      WORD_CHAR_def MATH_KW_def PUNCTUATION_def WHITE_SPACE_def LINE_BREAK_def Let_def)

subsection \<open>The classifier\<close>

text \<open>
  C8 (identifiers). The claim: a word that is not a special character and not a keyword,
  whose segments between underscores are alphanumeric and which does not start with a
  digit, is classified as \<open>Name\<close>. The code reaches the identifier branch for such a
  word and evaluates \<open>Symbol.Name\<close> there, which raises \<open>AttributeError\<close>: the word
  \<open>abc\<close> is not classified, and no word at all is classified as \<open>Name\<close>.
\<close>

theorem classify_word_identifier:
  "classify_word float_ok ''abc'' pos_index = Inl AttributeError
   \<and> classify_word float_ok word pos_index \<noteq> Inr Name"
  by (simp add: classify_word_def isalnum_def isalnum_char_def isalpha_def isdigit_def
      PUNCTUATION_def MATH_KW_def VAR_KW_def)

subsection \<open>The evaluator\<close>

text \<open>
  C1 (arithmetic, left to right). The claim: the program parsed from the script
  \<open>2 - 1 - 1\<close> evaluates to 0 and the one parsed from \<open>min(1,2) + 3\<close> to 4. In the
  code no program is parsed from a script: \<open>evaluate_script\<close> lexes the script and
  fails with \<open>NameError\<close> at the call of \<open>_parse_program\<close>, for both scripts, every
  context and every store. (The lexer's words for the first script hold the runs of
  whitespace, repeated, see \<open>decompose_script_arithmetic_words\<close>; at such a word
  \<open>_parse_node\<close> does not advance, see \<open>parse_node_whitespace_keeps_index\<close>. On the
  instruction sequences themselves the evaluator gives 0 and 4, see
  \<open>evaluate_program_arithmetic_examples\<close>.)
\<close>

theorem evaluate_script_arithmetic_examples:
  "evaluate_script ''2 - 1 - 1'' g \<sigma> = (Inl NameError, \<sigma>)
   \<and> evaluate_script ''min(1,2) + 3'' g \<sigma> = (Inl NameError, \<sigma>)"
  by (simp add: evaluate_script_def decompose_script_def decompose_loop.simps ws_run.simps
      isalpha_def isdigit_def WORD_CHAR_def MATH_KW_def PUNCTUATION_def WHITE_SPACE_def
      LINE_BREAK_def Let_def)

text \<open>
  C4 (stack check). The claim: a pass that ends with a number of stack values other than
  one fails with the runtime error \<open>StackImbalance\<close>, and a pass that ends with one
  value returns it. The code makes the check and returns the single value, but the
  failure it raises is \<open>NameError\<close>: the raise statement names the unbound class
  \<open>RuntimeException\<close>. A program of literals alone ends with as many values as it has
  literals; a program of two literals fails with \<open>NameError\<close>.
\<close>

theorem evaluate_program_stack_check:
  "(\<forall>exec_stack \<sigma>'. eval_loop prog [] g \<sigma> = (Inr exec_stack, \<sigma>') \<longrightarrow>
      (length exec_stack \<noteq> 1 \<longrightarrow> evaluate_program prog g \<sigma> = (Inl NameError, \<sigma>'))
      \<and> (\<forall>v. exec_stack = [v] \<longrightarrow> evaluate_program prog g \<sigma> = (Inr v, \<sigma>')))
   \<and> evaluate_program (map Var vs) g \<sigma>
       = (if length vs \<noteq> 1 then Inl NameError else Inr (last vs), \<sigma>)
   \<and> evaluate_program [Var a, Var b] g \<sigma> = (Inl NameError, \<sigma>)
   \<and> fst (evaluate_program [Var a, Var b] g \<sigma>) \<noteq> Inl (RuntimeError (StackImbalance 2))"
  by (simp add: eval_loop_literals)

theorem evaluate_program_stack_check_witness:
  "evaluate_program [Var (Num 1), Var (Str ''x'')] NoneV (\<lambda>a. []) = (Inl NameError, (\<lambda>a. []))
   \<and> evaluate_program [] NoneV (\<lambda>a. []) = (Inl NameError, (\<lambda>a. []))
   \<and> evaluate_program [Var (Num 1), Arith ''+'', Var (Num 1)] NoneV (\<lambda>a. [])
     = (Inr (Num 2), (\<lambda>a. []))"
proof -
  have a: "eval_loop [Var (Num 1), Var (Str ''x'')] [] NoneV (\<lambda>a. [])
      = (Inr [Num 1, Str ''x''], (\<lambda>a. []))"
    by simp
  have b: "eval_loop [] [] NoneV (\<lambda>a. []) = (Inr [], (\<lambda>a. []))"
    by simp
  have c: "eval_loop [Var (Num 1), Arith ''+'', Var (Num 1)] [] NoneV (\<lambda>a. [])
      = (Inr [Num 2], (\<lambda>a. []))"
    by (simp add: apply_arith_def)
  from evaluate_program_stack_check [of "[Var (Num 1), Var (Str ''x'')]" NoneV "\<lambda>a. []"] a
  have 1: "evaluate_program [Var (Num 1), Var (Str ''x'')] NoneV (\<lambda>a. [])
     = (Inl NameError, (\<lambda>a. []))"
    by (simp del: evaluate_program.simps eval_loop.simps)
  from evaluate_program_stack_check [of "[]" NoneV "\<lambda>a. []"] b
  have 2: "evaluate_program [] NoneV (\<lambda>a. []) = (Inl NameError, (\<lambda>a. []))"
    by (simp del: evaluate_program.simps eval_loop.simps)
  from evaluate_program_stack_check [of "[Var (Num 1), Arith ''+'', Var (Num 1)]" NoneV "\<lambda>a. []"] c
  have 3: "evaluate_program [Var (Num 1), Arith ''+'', Var (Num 1)] NoneV (\<lambda>a. [])
     = (Inr (Num 2), (\<lambda>a. []))"
    by (simp del: evaluate_program.simps eval_loop.simps)
  from 1 2 3 show ?thesis by blast
qed

text \<open>
  C9 (no side effect). For every program, every value of \<open>global_var\<close> and every store,
  the store after the evaluation is the store before it: the evaluator and the built-in
  functions read the dictionaries of the context and write none, whether they return a
  value or raise.
\<close>

theorem evaluate_program_store_unchanged:
  "snd (evaluate_program prog global_var \<sigma>) = \<sigma>
   \<and> snd (run_func func_name args global_var \<sigma>) = \<sigma>"
  by (simp only: evaluator_store run_func_store)

subsection \<open>The built-in \<open>lookup\<close>\<close>

text \<open>
  C5 (lookup), as stated: for every context and path, an absent segment gives \<open>None\<close>
  and not an error. In the context \<open>{"sensor": {"temp": 21.5}}\<close> the path
  \<open>sensor.temp.unit\<close> has no value (its last segment is absent), and the lookup raises
  \<open>TypeError\<close>: the walk reaches the float and tests the segment against it.
\<close>

theorem lookup_through_number_counterexample:
  "run_func ''lookup'' [Str ''sensor.temp.unit''] (DictRef 0) sensor_store
     = (Inl TypeError, sensor_store)
   \<and> descend sensor_store (DictRef 0) (split (CHR ''.'') ''sensor.temp.unit'') = None"
  by (simp add: run_func_def sensor_store_simps)

text \<open>
  C5 (lookup), amended: the path is split on the dot and the context is walked segment by
  segment. If the walk reaches a dictionary that lacks the next segment, the result is
  \<open>None\<close> and not an error; if every segment is found, the result is the value at the
  last segment, which may be a float, a string or a nested dictionary. A call with no
  argument or with more than one fails, and so does a call whose argument is not a string.
\<close>

theorem lookup_walks_context:
  "(\<forall>pre s post a. split (CHR ''.'') p = pre @ s # post \<and> descend \<sigma> g pre = Some (DictRef a)
        \<and> map_of (\<sigma> a) s = None
      \<longrightarrow> run_func ''lookup'' [Str p] g \<sigma> = (Inr NoneV, \<sigma>))
   \<and> (\<forall>v. descend \<sigma> g (split (CHR ''.'') p) = Some v
      \<longrightarrow> run_func ''lookup'' [Str p] g \<sigma> = (Inr v, \<sigma>))
   \<and> (\<forall>args. length args \<noteq> 1 \<longrightarrow> (\<exists>e. fst (run_func ''lookup'' args g \<sigma>) = Inl e))
   \<and> (\<forall>v. (\<forall>s. v \<noteq> Str s) \<longrightarrow> fst (run_func ''lookup'' [v] g \<sigma>) = Inl AttributeError)"
proof (intro conjI allI impI)
  fix pre s post a
  assume h: "split (CHR ''.'') p = pre @ s # post \<and> descend \<sigma> g pre = Some (DictRef a)
    \<and> map_of (\<sigma> a) s = None"
  then have "lookup_loop (split (CHR ''.'') p) g \<sigma> = lookup_loop (s # post) (DictRef a) \<sigma>"
    using lookup_loop_descend [of \<sigma> g pre "DictRef a" "s # post"] by simp
  with h show "run_func ''lookup'' [Str p] g \<sigma> = (Inr NoneV, \<sigma>)"
    by (simp add: run_func_def)
next
  fix v assume "descend \<sigma> g (split (CHR ''.'') p) = Some v"
  then show "run_func ''lookup'' [Str p] g \<sigma> = (Inr v, \<sigma>)"
    by (simp add: run_func_def lookup_loop_found)
next
  fix args :: "val list" assume "length args \<noteq> 1"
  then show "\<exists>e. fst (run_func ''lookup'' args g \<sigma>) = Inl e"
    by (cases args) (auto simp: run_func_def)
next
  fix v assume "\<forall>s. v \<noteq> Str s"
  then show "fst (run_func ''lookup'' [v] g \<sigma>) = Inl AttributeError"
    by (cases v) (auto simp: run_func_def)
qed

theorem lookup_walks_context_witness:
  "run_func ''lookup'' [Str ''sensor.humidity''] (DictRef 0) sensor_store = (Inr NoneV, sensor_store)
   \<and> run_func ''lookup'' [Str ''sensor.temp''] (DictRef 0) sensor_store = (Inr (Num 21.5), sensor_store)
   \<and> run_func ''lookup'' [Str ''sensor''] (DictRef 0) sensor_store = (Inr (DictRef 1), sensor_store)
   \<and> (\<exists>e. fst (run_func ''lookup'' [Str ''a'', Str ''b''] (DictRef 0) sensor_store) = Inl e)
   \<and> fst (run_func ''lookup'' [Num 1] (DictRef 0) sensor_store) = Inl AttributeError"
proof -
  note T = lookup_walks_context [of _ sensor_store "DictRef 0"]
  have miss: "split (CHR ''.'') ''sensor.humidity'' = [''sensor''] @ ''humidity'' # []
      \<and> descend sensor_store (DictRef 0) [''sensor''] = Some (DictRef 1)
      \<and> map_of (sensor_store 1) ''humidity'' = None"
    by (simp add: sensor_store_simps)
  have 1: "run_func ''lookup'' [Str ''sensor.humidity''] (DictRef 0) sensor_store = (Inr NoneV, sensor_store)"
    using T [of "''sensor.humidity''"] miss by blast
  have hit: "descend sensor_store (DictRef 0) (split (CHR ''.'') ''sensor.temp'') = Some (Num 21.5)"
    by (simp add: sensor_store_simps)
  have 2: "run_func ''lookup'' [Str ''sensor.temp''] (DictRef 0) sensor_store = (Inr (Num 21.5), sensor_store)"
    using T [of "''sensor.temp''"] hit by blast
  have hit2: "descend sensor_store (DictRef 0) (split (CHR ''.'') ''sensor'') = Some (DictRef 1)"
    by (simp add: sensor_store_simps)
  have 3: "run_func ''lookup'' [Str ''sensor''] (DictRef 0) sensor_store = (Inr (DictRef 1), sensor_store)"
    using T [of "''sensor''"] hit2 by blast
  have len: "length [Str ''a'', Str ''b''] \<noteq> 1" by simp
  have 4: "\<exists>e. fst (run_func ''lookup'' [Str ''a'', Str ''b''] (DictRef 0) sensor_store) = Inl e"
    using T [of "''x''"] len by blast
  have ns: "\<forall>s. Num 1 \<noteq> Str s" by simp
  have 5: "fst (run_func ''lookup'' [Num 1] (DictRef 0) sensor_store) = Inl AttributeError"
    using T [of "''x''"] ns by blast
  from 1 2 3 4 5 show ?thesis by blast
qed

text \<open>
  C10 (terminal values on the way), as stated: when a segment resolves to a float or a
  string while segments remain, the lookup fails. In the context \<open>{"a": "xyz", "n": 1.0}\<close>
  the path \<open>a.b\<close> reaches the string \<open>xyz\<close> with the segment \<open>b\<close> remaining, and
  the lookup returns \<open>None\<close>: on a string the membership test is the substring test.
\<close>

theorem lookup_through_string_counterexample:
  "run_func ''lookup'' [Str ''a.b''] (DictRef 0) label_store = (Inr NoneV, label_store)"
  by (simp add: run_func_def label_store_simps)

text \<open>
  C10 (terminal values on the way), amended: when the walk reaches a float or \<open>None\<close>
  while a segment remains, the lookup fails with \<open>TypeError\<close>. When it reaches a string,
  it fails with \<open>TypeError\<close> if the next segment occurs in the string, and returns
  \<open>None\<close> if it does not. The lookup returns \<open>None\<close> only when the walk reaches a
  dictionary that lacks the next segment, or a string in which the next segment does not
  occur, or when the value found at the last segment is \<open>None\<close> itself.
\<close>

theorem lookup_terminal_position:
  "(\<forall>pre s post t. split (CHR ''.'') p = pre @ s # post \<and> descend \<sigma> g pre = Some t \<longrightarrow>
      ((\<exists>x. t = Num x) \<or> t = NoneV \<longrightarrow> run_func ''lookup'' [Str p] g \<sigma> = (Inl TypeError, \<sigma>))
      \<and> (\<forall>u. t = Str u \<longrightarrow> run_func ''lookup'' [Str p] g \<sigma>
            = (if str_contains u s then Inl TypeError else Inr NoneV, \<sigma>)))
   \<and> (fst (run_func ''lookup'' [Str p] g \<sigma>) = Inr NoneV \<longrightarrow>
        (\<exists>pre s post t. split (CHR ''.'') p = pre @ s # post \<and> descend \<sigma> g pre = Some t \<and>
           ((\<exists>a. t = DictRef a \<and> map_of (\<sigma> a) s = None) \<or> (\<exists>u. t = Str u \<and> \<not> str_contains u s)))
        \<or> descend \<sigma> g (split (CHR ''.'') p) = Some NoneV)"
proof (intro conjI allI impI)
  fix pre s post t
  assume h: "split (CHR ''.'') p = pre @ s # post \<and> descend \<sigma> g pre = Some t"
    and t: "(\<exists>x. t = Num x) \<or> t = NoneV"
  from h have "lookup_loop (split (CHR ''.'') p) g \<sigma> = lookup_loop (s # post) t \<sigma>"
    using lookup_loop_descend [of \<sigma> g pre t "s # post"] by simp
  with t show "run_func ''lookup'' [Str p] g \<sigma> = (Inl TypeError, \<sigma>)"
    by (auto simp: run_func_def)
next
  fix pre s post t u
  assume h: "split (CHR ''.'') p = pre @ s # post \<and> descend \<sigma> g pre = Some t"
    and t: "t = Str u"
  from h have "lookup_loop (split (CHR ''.'') p) g \<sigma> = lookup_loop (s # post) t \<sigma>"
    using lookup_loop_descend [of \<sigma> g pre t "s # post"] by simp
  with t show "run_func ''lookup'' [Str p] g \<sigma>
      = (if str_contains u s then Inl TypeError else Inr NoneV, \<sigma>)"
    by (auto simp: run_func_def)
next
  assume "fst (run_func ''lookup'' [Str p] g \<sigma>) = Inr NoneV"
  then have "fst (lookup_loop (split (CHR ''.'') p) g \<sigma>) = Inr NoneV"
    by (simp add: run_func_def)
  then have "lookup_loop (split (CHR ''.'') p) g \<sigma> = (Inr NoneV, \<sigma>)"
    using lookup_loop_store [of "split (CHR ''.'') p" g \<sigma>] by (metis prod.collapse)
  from lookup_loop_none_only [OF this]
  show "(\<exists>pre s post t. split (CHR ''.'') p = pre @ s # post \<and> descend \<sigma> g pre = Some t \<and>
           ((\<exists>a. t = DictRef a \<and> map_of (\<sigma> a) s = None) \<or> (\<exists>u. t = Str u \<and> \<not> str_contains u s)))
        \<or> descend \<sigma> g (split (CHR ''.'') p) = Some NoneV" .
qed

theorem lookup_terminal_position_witness:
  "run_func ''lookup'' [Str ''n.b''] (DictRef 0) label_store = (Inl TypeError, label_store)
   \<and> run_func ''lookup'' [Str ''a.yz''] (DictRef 0) label_store = (Inl TypeError, label_store)
   \<and> run_func ''lookup'' [Str ''a.q''] (DictRef 0) label_store = (Inr NoneV, label_store)"
proof -
  note T = lookup_terminal_position [of _ label_store "DictRef 0"]
  have n: "split (CHR ''.'') ''n.b'' = [''n''] @ ''b'' # []
      \<and> descend label_store (DictRef 0) [''n''] = Some (Num 1)"
    by (simp add: label_store_simps)
  have 1: "run_func ''lookup'' [Str ''n.b''] (DictRef 0) label_store = (Inl TypeError, label_store)"
    using T [of "''n.b''"] n by blast
  have a: "split (CHR ''.'') ''a.yz'' = [''a''] @ ''yz'' # []
      \<and> descend label_store (DictRef 0) [''a''] = Some (Str ''xyz'')"
    by (simp add: label_store_simps)
  have c: "str_contains ''xyz'' ''yz''" by simp
  have "run_func ''lookup'' [Str ''a.yz''] (DictRef 0) label_store
      = (if str_contains ''xyz'' ''yz'' then Inl TypeError else Inr NoneV, label_store)"
    using T [of "''a.yz''"] a by blast
  with c have 2: "run_func ''lookup'' [Str ''a.yz''] (DictRef 0) label_store = (Inl TypeError, label_store)"
    by simp
  have q: "split (CHR ''.'') ''a.q'' = [''a''] @ ''q'' # []
      \<and> descend label_store (DictRef 0) [''a''] = Some (Str ''xyz'')"
    by (simp add: label_store_simps)
  have nc: "\<not> str_contains ''xyz'' ''q''" by simp
  have "run_func ''lookup'' [Str ''a.q''] (DictRef 0) label_store
      = (if str_contains ''xyz'' ''q'' then Inl TypeError else Inr NoneV, label_store)"
    using T [of "''a.q''"] q by blast
  with nc have 3: "run_func ''lookup'' [Str ''a.q''] (DictRef 0) label_store = (Inr NoneV, label_store)"
    by simp
  from 1 2 3 show ?thesis by blast
qed

subsection \<open>The parser\<close>

text \<open>
  C6 (argument lists). The claim: \<open>_parse_args\<close> parses one node and fails with the
  syntax error \<open>ExpectedOpenParen\<close> when it is not the opening parenthesis; otherwise it
  collects the argument programs. The code does the second part: when the nodes parsed
  next are \<open>nodes\<close>, none of them the closing parenthesis, and the node after them is
  the closing parenthesis, it returns \<open>split_args [] nodes\<close> and the index after the
  closing parenthesis (each node joins the current accumulator, a comma closes it and
  opens an empty one, the closing parenthesis closes the last one, which is empty for a
  call without arguments), with enough fuel and with any fuel beyond that. When the first
  node is not the opening parenthesis it fails, but with \<open>NameError\<close>: the raise
  statement names the unbound class \<open>InvalidSyntaxException\<close>.
\<close>

theorem parse_args_argument_list:
  "parse_node L n word_list word_index = Some (Inr (next_node, i1)) \<Longrightarrow>
   (next_node \<noteq> Punc ''('' \<longrightarrow>
      (\<forall>m \<ge> Suc n. parse_args L m word_list word_index = Some (Inl NameError)))
   \<and> (next_node = Punc ''('' \<longrightarrow>
      (\<forall>nodes j k. run_nodes L n word_list i1 nodes = Some j \<and> Punc '')'' \<notin> set nodes
          \<and> parse_node L n word_list j = Some (Inr (Punc '')'', k))
        \<longrightarrow> (\<forall>m \<ge> n + length nodes + 2.
              parse_args L m word_list word_index = Some (Inr (split_args [] nodes, k)))))"
proof (intro conjI impI allI)
  fix m
  assume first: "parse_node L n word_list word_index = Some (Inr (next_node, i1))"
    and no: "next_node \<noteq> Punc ''(''" and m: "Suc n \<le> m"
  from first no have "parse_args L (Suc n) word_list word_index
      = Some (Inl NameError)"
    by (simp del: parse_node.simps)
  from parse_args_fuel [OF this, of "m - Suc n"]
  have "parse_args L (Suc n + (m - Suc n)) word_list word_index
      = Some (Inl NameError)" .
  moreover have "Suc n + (m - Suc n) = m" using m by arith
  ultimately show "parse_args L m word_list word_index = Some (Inl NameError)"
    by (simp only:)
next
  fix nodes j k m
  assume first: "parse_node L n word_list word_index = Some (Inr (next_node, i1))"
    and op: "next_node = Punc ''(''"
    and h: "run_nodes L n word_list i1 nodes = Some j \<and> Punc '')'' \<notin> set nodes
          \<and> parse_node L n word_list j = Some (Inr (Punc '')'', k))"
    and m: "n + length nodes + 2 \<le> m"
  from h have loop: "args_loop L (Suc (n + length nodes)) word_list i1 [] []
      = Some (Inr ([] @ split_args [] nodes, k))"
    using args_loop_nodes [of L n word_list i1 nodes j k "[]" "[]"] by blast
  have first': "parse_node L (Suc (n + length nodes)) word_list word_index = Some (Inr (Punc ''('', i1))"
    using parse_node_fuel [OF first, of "Suc (length nodes)"] op by simp
  have "parse_args L (Suc (Suc (n + length nodes))) word_list word_index
      = Some (Inr (split_args [] nodes, k))"
    using first' loop by (simp del: parse_node.simps args_loop.simps)
  from parse_args_fuel [OF this, of "m - (n + length nodes + 2)"]
  have "parse_args L (Suc (Suc (n + length nodes)) + (m - (n + length nodes + 2))) word_list word_index
      = Some (Inr (split_args [] nodes, k))" .
  moreover have "Suc (Suc (n + length nodes)) + (m - (n + length nodes + 2)) = m" using m by arith
  ultimately show "parse_args L m word_list word_index = Some (Inr (split_args [] nodes, k))"
    by (simp only:)
qed

theorem parse_args_argument_list_witness:
  "parse_args digits_lexicon 6 [''('', ''1'', '','', ''2'', '')''] 0
     = Some (Inr ([[Var (Num 1)], [Var (Num 2)]], 5))
   \<and> parse_args digits_lexicon 3 [''('', '')''] 0 = Some (Inr ([[]], 2))
   \<and> parse_args digits_lexicon 2 [''1'', '')''] 0 = Some (Inl NameError)"
proof -
  have run0: "run_nodes digits_lexicon (Suc 0) [''('', '')''] 1 [] = Some 1
      \<and> Punc '')'' \<notin> set []
      \<and> parse_node digits_lexicon (Suc 0) [''('', '')''] 1 = Some (Inr (Punc '')'', 2))"
    using digits_nodes by (simp del: parse_node.simps)
  have m0: "Suc 0 + length ([] :: node list) + 2 \<le> (3 :: nat)"
    by simp
  have "parse_args digits_lexicon 3 [''('', '')''] 0 = Some (Inr (split_args [] [], 2))"
    using parse_args_argument_list [OF digits_nodes(7)] run0 m0 by blast
  then have 0: "parse_args digits_lexicon 3 [''('', '')''] 0 = Some (Inr ([[]], 2))"
    by simp
  have run: "run_nodes digits_lexicon (Suc 0) [''('', ''1'', '','', ''2'', '')''] 1
        [Var (Num 1), Punc '','', Var (Num 2)] = Some 4
      \<and> Punc '')'' \<notin> set [Var (Num 1), Punc '','', Var (Num 2)]
      \<and> parse_node digits_lexicon (Suc 0) [''('', ''1'', '','', ''2'', '')''] 4 = Some (Inr (Punc '')'', 5))"
    using digits_nodes by (simp del: parse_node.simps)
  have sp: "split_args [] [Var (Num 1), Punc '','', Var (Num 2)] = [[Var (Num 1)], [Var (Num 2)]]"
    by simp
  have m: "Suc 0 + length [Var (Num 1), Punc '','', Var (Num 2)] + 2 \<le> (6 :: nat)"
    by simp
  have "parse_args digits_lexicon 6 [''('', ''1'', '','', ''2'', '')''] 0
      = Some (Inr (split_args [] [Var (Num 1), Punc '','', Var (Num 2)], 5))"
    using parse_args_argument_list [OF digits_nodes(1)] run m by blast
  with sp have 1: "parse_args digits_lexicon 6 [''('', ''1'', '','', ''2'', '')''] 0
      = Some (Inr ([[Var (Num 1)], [Var (Num 2)]], 5))"
    by simp
  have ne: "Var (Num 1) \<noteq> Punc ''(''" by simp
  have m2: "Suc (Suc 0) \<le> (2 :: nat)" by simp
  have 2: "parse_args digits_lexicon 2 [''1'', '')''] 0 = Some (Inl NameError)"
    using parse_args_argument_list [OF digits_nodes(6)] ne m2 by blast
  from 0 1 2 show ?thesis by blast
qed




end
